theory Spec2Isabelle
  imports Complex_Main
begin

section \<open>Admission control: \<^verbatim>\<open>api/rate_limiter.py\<close>\<close>

text \<open>
  The rate limiter keeps one Redis hash per bucket, with the fields \<^verbatim>\<open>tokens\<close> and
  \<^verbatim>\<open>last_update\<close>, and mutates it only through one Lua script. Lua numbers and Python's
  \<^verbatim>\<open>time.time()\<close> are doubles; they are modelled by exact reals, so rounding is not part
  of the model. Exceptions are values of \<open>py_error\<close>.
\<close>

datatype py_error =
    ConnectionError
  | TimeoutError
  | ResponseError
  | TypeError
  | AttributeError
  | KeyError
  | JSONDecodeError
  | UnicodeDecodeError
  | UnpicklingError
  | ValueError
  | ProviderFailure string
  | NotModelled

record rate_limit_config =
  requests_per_minute :: int
  burst_size :: int
  key_prefix :: string

record rate_limiter =
  default_config :: rate_limit_config

text \<open>\<^verbatim>\<open>RateLimiter.__init__\<close>: the default configuration is the argument, or the built-in one.\<close>

definition builtin_default_config :: rate_limit_config where
  "builtin_default_config =
     \<lparr>requests_per_minute = 60, burst_size = 10, key_prefix = ''rate_limit''\<rparr>"

definition RateLimiter_init :: "rate_limit_config option \<Rightarrow> rate_limiter" where
  "RateLimiter_init dc =
     \<lparr>default_config = (case dc of Some c \<Rightarrow> c | None \<Rightarrow> builtin_default_config)\<rparr>"

definition tier_configs_items :: "(string \<times> rate_limit_config) list" where
  "tier_configs_items =
     [(''free'',
        \<lparr>requests_per_minute = 60, burst_size = 10, key_prefix = ''rate_limit:free''\<rparr>),
      (''pro'',
        \<lparr>requests_per_minute = 300, burst_size = 50, key_prefix = ''rate_limit:pro''\<rparr>),
      (''enterprise'',
        \<lparr>requests_per_minute = 1000, burst_size = 100,
         key_prefix = ''rate_limit:enterprise''\<rparr>)]"

definition tier_configs :: "string \<rightharpoonup> rate_limit_config" where
  "tier_configs = map_of tier_configs_items"

text \<open>\<^verbatim>\<open>self.tier_configs.get(subscription_tier, self.default_config)\<close>\<close>

definition config_for :: "rate_limiter \<Rightarrow> string \<Rightarrow> rate_limit_config" where
  "config_for rl subscription_tier =
     (case tier_configs subscription_tier of
        Some c \<Rightarrow> c
      | None \<Rightarrow> default_config rl)"

text \<open>\<^verbatim>\<open>bucket_key = f"{config.key_prefix}:{key}"\<close>\<close>

definition bucket_key :: "rate_limit_config \<Rightarrow> string \<Rightarrow> string" where
  "bucket_key config key = key_prefix config @ '':'' @ key"

record bucket =
  tokens :: real
  last_update :: real

text \<open>
  The shared store: each bucket key holds a hash and the server time at which Redis drops
  it (set by \<^verbatim>\<open>EXPIRE\<close>). A key whose deadline has passed reads as absent.
\<close>

type_synonym bucket_store = "string \<rightharpoonup> (bucket \<times> real)"

definition hgetall :: "bucket_store \<Rightarrow> real \<Rightarrow> string \<Rightarrow> bucket option" where
  "hgetall store srv k =
     (case store k of
        None \<Rightarrow> None
      | Some (b, deadline) \<Rightarrow> if srv < deadline then Some b else None)"

text \<open>
  The Lua script of \<^verbatim>\<open>check_rate_limit\<close>, run atomically at server time \<open>srv\<close> with
  \<^verbatim>\<open>KEYS[1] = bucket_key\<close>, \<^verbatim>\<open>ARGV = now, rate, burst\<close>. It returns the new store and the
  script's reply.
\<close>

definition lua_script ::
  "bucket_store \<Rightarrow> real \<Rightarrow> string \<Rightarrow> real \<Rightarrow> real \<Rightarrow> real \<Rightarrow> bucket_store \<times> int" where
  "lua_script store srv bkey now rate burst =
     (let window = 60;
          bucket = hgetall store srv bkey;
          tokens0 = (case bucket of Some b \<Rightarrow> tokens b | None \<Rightarrow> burst);
          last_update0 = (case bucket of Some b \<Rightarrow> last_update b | None \<Rightarrow> 0);
          time_passed = now - last_update0;
          new_tokens = min burst (tokens0 + (rate * time_passed / window))
      in if new_tokens \<ge> 1
         then (store(bkey \<mapsto>
                 (\<lparr>tokens = new_tokens - 1, last_update = now\<rparr>, srv + window)), 1)
         else (store, 0))"

text \<open>
  \<^verbatim>\<open>self.redis.eval(...)\<close> either raises (store unreachable, timeout, script error: the
  \<open>fault\<close>) or runs the script.
\<close>

definition redis_eval :: "py_error option \<Rightarrow> 'a \<Rightarrow> py_error + 'a" where
  "redis_eval fault reply = (case fault of Some e \<Rightarrow> Inl e | None \<Rightarrow> Inr reply)"

text \<open>
  \<^verbatim>\<open>RateLimiter.check_rate_limit(key, subscription_tier)\<close>, called when the client clock
  reads \<open>now\<close> and the server clock \<open>srv\<close>. The result is the returned boolean and the store
  afterwards.
\<close>

definition check_rate_limit ::
  "rate_limiter \<Rightarrow> py_error option \<Rightarrow> bucket_store \<Rightarrow> real \<Rightarrow> real \<Rightarrow> string \<Rightarrow> string
     \<Rightarrow> bool \<times> bucket_store" where
  "check_rate_limit rl fault store srv now key subscription_tier =
     (let config = config_for rl subscription_tier;
          bkey = bucket_key config key
      in case redis_eval fault
                (lua_script store srv bkey now
                   (real_of_int (requests_per_minute config))
                   (real_of_int (burst_size config))) of
           Inr (store', result) \<Rightarrow> (result \<noteq> 0, store')
         | Inl e \<Rightarrow> (True, store))"

text \<open>A sequence of calls, each with its own clocks, client key, tier and store fault.\<close>

record call =
  c_fault :: "py_error option"
  c_srv :: real
  c_now :: real
  c_key :: string
  c_tier :: string

fun run_calls :: "rate_limiter \<Rightarrow> call list \<Rightarrow> bucket_store \<Rightarrow> bucket_store" where
  "run_calls rl [] store = store"
| "run_calls rl (c # cs) store =
     run_calls rl cs
       (snd (check_rate_limit rl (c_fault c) store (c_srv c) (c_now c) (c_key c) (c_tier c)))"

text \<open>
  The consume operation as the specification words it, for comparison with the script:
  the elapsed time is clamped at 0, and a refused call persists the refilled state.
\<close>

definition consume_spec ::
  "bucket option \<Rightarrow> real \<Rightarrow> real \<Rightarrow> real \<Rightarrow> real \<Rightarrow> bool \<times> bucket" where
  "consume_spec st now rate burst windowSeconds =
     (let tokens0 = (case st of Some b \<Rightarrow> tokens b | None \<Rightarrow> burst);
          last0 = (case st of Some b \<Rightarrow> last_update b | None \<Rightarrow> 0);
          elapsed = max 0 (now - last0);
          refilled = min burst (tokens0 + rate * elapsed / windowSeconds)
      in if refilled \<ge> 1
         then (True, \<lparr>tokens = refilled - 1, last_update = now\<rparr>)
         else (False, \<lparr>tokens = refilled, last_update = now\<rparr>))"

subsection \<open>The script over the number system of Lua\<close>

text \<open>
  Lua computes with IEEE doubles, and each operation of the script rounds. To state what
  the script computes without fixing the rounding, here is the same script over any
  number system: the operations and comparisons it uses are parameters, \<open>n_of_int\<close> reads
  the integer arguments and the literals \<^verbatim>\<open>60\<close>, \<^verbatim>\<open>1\<close> and \<^verbatim>\<open>0\<close>. Redis writes a number into
  the hash with 17 significant digits and \<^verbatim>\<open>tonumber\<close> reads the same double back, so a
  stored number is read as it was written. \<open>lua_script\<close> above is the instance at exact
  real arithmetic (lemma \<open>lua_script_exact_instance\<close>).
\<close>

record 'n lua_arith =
  n_add :: "'n \<Rightarrow> 'n \<Rightarrow> 'n"
  n_sub :: "'n \<Rightarrow> 'n \<Rightarrow> 'n"
  n_mul :: "'n \<Rightarrow> 'n \<Rightarrow> 'n"
  n_div :: "'n \<Rightarrow> 'n \<Rightarrow> 'n"
  n_min :: "'n \<Rightarrow> 'n \<Rightarrow> 'n"
  n_ge :: "'n \<Rightarrow> 'n \<Rightarrow> bool"
  n_of_int :: "int \<Rightarrow> 'n"

record 'n nbucket =
  n_tokens :: 'n
  n_last_update :: 'n

type_synonym 'n nbucket_store = "string \<rightharpoonup> ('n nbucket \<times> real)"

definition hgetall_n :: "'n nbucket_store \<Rightarrow> real \<Rightarrow> string \<Rightarrow> 'n nbucket option" where
  "hgetall_n store srv k =
     (case store k of
        None \<Rightarrow> None
      | Some (b, deadline) \<Rightarrow> if srv < deadline then Some b else None)"

definition lua_script_on ::
  "'n lua_arith \<Rightarrow> 'n nbucket_store \<Rightarrow> real \<Rightarrow> string \<Rightarrow> 'n \<Rightarrow> 'n \<Rightarrow> 'n
     \<Rightarrow> 'n nbucket_store \<times> int" where
  "lua_script_on A store srv bkey now rate burst =
     (let window = n_of_int A 60;
          bucket = hgetall_n store srv bkey;
          tokens0 = (case bucket of Some b \<Rightarrow> n_tokens b | None \<Rightarrow> burst);
          last_update0 = (case bucket of Some b \<Rightarrow> n_last_update b | None \<Rightarrow> n_of_int A 0);
          time_passed = n_sub A now last_update0;
          new_tokens =
            n_min A burst (n_add A tokens0 (n_div A (n_mul A rate time_passed) window))
      in if n_ge A new_tokens (n_of_int A 1)
         then (store(bkey \<mapsto>
                 (\<lparr>n_tokens = n_sub A new_tokens (n_of_int A 1), n_last_update = now\<rparr>,
                  srv + 60)), 1)
         else (store, 0))"

definition check_rate_limit_on ::
  "'n lua_arith \<Rightarrow> rate_limiter \<Rightarrow> py_error option \<Rightarrow> 'n nbucket_store \<Rightarrow> real \<Rightarrow> 'n
     \<Rightarrow> string \<Rightarrow> string \<Rightarrow> bool \<times> 'n nbucket_store" where
  "check_rate_limit_on A rl fault store srv now key subscription_tier =
     (let config = config_for rl subscription_tier;
          bkey = bucket_key config key
      in case redis_eval fault
                (lua_script_on A store srv bkey now
                   (n_of_int A (requests_per_minute config))
                   (n_of_int A (burst_size config))) of
           Inr (store', result) \<Rightarrow> (result \<noteq> 0, store')
         | Inl e \<Rightarrow> (True, store))"

text \<open>Exact real arithmetic, and a bucket of reals as a bucket of that number system.\<close>

definition exact_arith :: "real lua_arith" where
  "exact_arith =
     \<lparr>n_add = (+), n_sub = (-), n_mul = (*), n_div = (/), n_min = min,
      n_ge = (\<lambda>x y. x \<ge> y), n_of_int = real_of_int\<rparr>"

definition as_nbucket :: "bucket \<Rightarrow> real nbucket" where
  "as_nbucket b = \<lparr>n_tokens = tokens b, n_last_update = last_update b\<rparr>"

definition as_nstore :: "bucket_store \<Rightarrow> real nbucket_store" where
  "as_nstore store k = (case store k of None \<Rightarrow> None | Some (b, d) \<Rightarrow> Some (as_nbucket b, d))"

text \<open>The invariant of the bucket records of the configured tiers, used in the proofs.\<close>

definition tokens_ok :: "rate_limiter \<Rightarrow> bucket_store \<Rightarrow> bool" where
  "tokens_ok rl store \<longleftrightarrow>
     (\<forall>t k b d. t \<in> dom tier_configs \<longrightarrow>
        store (bucket_key (config_for rl t) k) = Some (b, d) \<longrightarrow>
        0 \<le> tokens b \<and> tokens b \<le> real_of_int (burst_size (config_for rl t)) - 1)"

section \<open>Python values and the library functions the code calls\<close>

datatype pyval =
    PNone
  | PBool bool
  | PInt int
  | PFloat real
  | PStr string
  | PList "pyval list"
  | PDict "(string \<times> pyval) list"
  | PObject string "(string \<times> pyval) list"

text \<open>
  \<^verbatim>\<open>json\<close>, \<^verbatim>\<open>pickle\<close>, the UTF-8 decoding that a Redis client created with
  \<^verbatim>\<open>decode_responses=True\<close> applies to a reply, and the builtin \<^verbatim>\<open>hash\<close> are not code of
  this repository: they are parameters of the model. A text and its UTF-8 bytes are both
  a \<open>string\<close>.
\<close>

record pylib =
  json_dumps :: "pyval \<Rightarrow> py_error + string"
  json_loads :: "string \<Rightarrow> py_error + pyval"
  pickle_dumps :: "pyval \<Rightarrow> py_error + string"
  pickle_loads :: "string \<Rightarrow> py_error + pyval"
  utf8_decode :: "string \<Rightarrow> py_error + string"
  py_hash :: "string \<Rightarrow> int"

text \<open>
  An \<^verbatim>\<open>except\<close> clause evaluates its expression when an exception reaches it. The only
  exception class the \<^verbatim>\<open>json\<close> module defines is \<^verbatim>\<open>JSONDecodeError\<close>; looking up any other
  name of that kind, such as \<^verbatim>\<open>json.JSONEncodeError\<close>, raises \<^verbatim>\<open>AttributeError\<close>.
\<close>

definition json_exception_class :: "string \<Rightarrow> py_error + py_error" where
  "json_exception_class name =
     (if name = ''JSONDecodeError'' then Inr JSONDecodeError else Inl AttributeError)"

text \<open>\<^verbatim>\<open>str\<close> of an integer, as an f-string formats it.\<close>

definition digit :: "nat \<Rightarrow> char" where
  "digit n = ''0123456789'' ! n"

function str_nat :: "nat \<Rightarrow> string" where
  "str_nat n = (if n < 10 then [digit n] else str_nat (n div 10) @ [digit (n mod 10)])"
  by pat_completeness auto
termination
  by (relation "measure id") auto

declare str_nat.simps [simp del]

definition str_int :: "int \<Rightarrow> string" where
  "str_int i = (if i < 0 then CHR ''-'' # str_nat (nat (- i)) else str_nat (nat i))"

text \<open>Reading a decimal numeral back, used to show that \<open>str_int\<close> is injective.\<close>

definition digit_val :: "char \<Rightarrow> nat" where
  "digit_val c = of_char c - 48"

definition nat_of_digits :: "string \<Rightarrow> nat" where
  "nat_of_digits ds = foldl (\<lambda>a c. 10 * a + digit_val c) 0 ds"

section \<open>The result cache: \<^verbatim>\<open>cache/cache_manager.py\<close>\<close>

text \<open>
  \<^verbatim>\<open>CacheManager.__init__\<close> opens two clients, \<^verbatim>\<open>redis_client\<close> (replies decoded to
  text) and \<^verbatim>\<open>binary_redis\<close> (raw replies), on the same host and port: one server, one
  keyspace. Each key holds the stored bytes and the server time at which it expires.
\<close>

type_synonym string_store = "string \<rightharpoonup> (string \<times> real)"

datatype redis_server = Down | Up string_store

record cache_manager =
  default_ttl :: int

definition CacheManager_init :: cache_manager where
  "CacheManager_init = \<lparr>default_ttl = 3600\<rparr>"

definition redis_get :: "redis_server \<Rightarrow> real \<Rightarrow> string \<Rightarrow> py_error + string option" where
  "redis_get server now key =
     (case server of
        Down \<Rightarrow> Inl ConnectionError
      | Up store \<Rightarrow>
          (case store key of
             None \<Rightarrow> Inr None
           | Some (raw, deadline) \<Rightarrow> if now < deadline then Inr (Some raw) else Inr None))"

text \<open>\<^verbatim>\<open>SET key value EX ttl\<close>; the server refuses an expiry that is not positive.\<close>

definition redis_set ::
  "redis_server \<Rightarrow> real \<Rightarrow> string \<Rightarrow> string \<Rightarrow> int \<Rightarrow> (py_error + unit) \<times> redis_server" where
  "redis_set server now key raw ex =
     (case server of
        Down \<Rightarrow> (Inl ConnectionError, Down)
      | Up store \<Rightarrow>
          if ex \<le> 0 then (Inl ResponseError, Up store)
          else (Inr (), Up (store(key \<mapsto> (raw, now + real_of_int ex)))))"

definition redis_delete :: "redis_server \<Rightarrow> string \<Rightarrow> (py_error + unit) \<times> redis_server" where
  "redis_delete server key =
     (case server of
        Down \<Rightarrow> (Inl ConnectionError, Down)
      | Up store \<Rightarrow> (Inr (), Up (store(key := None))))"

text \<open>
  \<^verbatim>\<open>CacheManager.get(key, default)\<close>. The text client's reply is decoded as UTF-8 inside
  \<^verbatim>\<open>redis_client.get\<close>; only a \<^verbatim>\<open>JSONDecodeError\<close> leads to the binary read.
\<close>

definition cache_get ::
  "pylib \<Rightarrow> redis_server \<Rightarrow> real \<Rightarrow> string \<Rightarrow> pyval \<Rightarrow> py_error + pyval" where
  "cache_get L server now key dflt =
     (case redis_get server now key of
        Inl e \<Rightarrow> Inl e
      | Inr None \<Rightarrow> Inr dflt
      | Inr (Some raw) \<Rightarrow>
          (case utf8_decode L raw of
             Inl e \<Rightarrow> Inl e
           | Inr v \<Rightarrow>
               (case json_loads L v of
                  Inr x \<Rightarrow> Inr x
                | Inl e \<Rightarrow>
                    (case json_exception_class ''JSONDecodeError'' of
                       Inl e' \<Rightarrow> Inl e'
                     | Inr c \<Rightarrow>
                         if e = c
                         then (case redis_get server now key of
                                 Inl e' \<Rightarrow> Inl e'
                               | Inr None \<Rightarrow> Inr dflt
                               | Inr (Some raw') \<Rightarrow> pickle_loads L raw')
                         else Inl e))))"

text \<open>
  \<^verbatim>\<open>CacheManager.set(key, value, ttl)\<close>: the \<^verbatim>\<open>try\<close> body, then the clause
  \<^verbatim>\<open>except (TypeError, json.JSONEncodeError)\<close>, whose expression is evaluated when the body
  raises.
\<close>

definition cache_set ::
  "cache_manager \<Rightarrow> pylib \<Rightarrow> redis_server \<Rightarrow> real \<Rightarrow> string \<Rightarrow> pyval \<Rightarrow> int option
     \<Rightarrow> (py_error + unit) \<times> redis_server" where
  "cache_set cm L server now key v ttl =
     (let ttl' = (case ttl of None \<Rightarrow> default_ttl cm | Some t \<Rightarrow> t);
          body = (case json_dumps L v of
                    Inl e \<Rightarrow> (Inl e, server)
                  | Inr serialized \<Rightarrow> redis_set server now key serialized ttl')
      in case body of
           (Inr u, server') \<Rightarrow> (Inr u, server')
         | (Inl e, server') \<Rightarrow>
             (case json_exception_class ''JSONEncodeError'' of
                Inl e' \<Rightarrow> (Inl e', server')
              | Inr c \<Rightarrow>
                  if e = TypeError \<or> e = c
                  then (case pickle_dumps L v of
                          Inl e' \<Rightarrow> (Inl e', server')
                        | Inr serialized \<Rightarrow> redis_set server' now key serialized ttl')
                  else (Inl e, server')))"

text \<open>\<^verbatim>\<open>CacheManager.delete(key)\<close>: one \<^verbatim>\<open>DEL\<close> through each client.\<close>

definition cache_delete :: "redis_server \<Rightarrow> string \<Rightarrow> (py_error + unit) \<times> redis_server" where
  "cache_delete server key =
     (case redis_delete server key of
        (Inl e, server') \<Rightarrow> (Inl e, server')
      | (Inr u, server') \<Rightarrow> redis_delete server' key)"

subsection \<open>An excerpt of the library, for evaluation\<close>

text \<open>
  To evaluate the cache on concrete values the library parameters are instantiated by an
  excerpt of Python's behaviour: JSON texts of \<^verbatim>\<open>None\<close>, booleans, integers of at most 18
  digits and strings of printable ASCII characters without quote and backslash; the
  protocol-1 pickle \<^verbatim>\<open>b'K*.'\<close> of the integer 42; ASCII as UTF-8, and the refusal of bytes
  whose first byte beyond ASCII cannot start a character (\<^verbatim>\<open>0x80\<close> to \<^verbatim>\<open>0xC1\<close>, \<^verbatim>\<open>0xF5\<close> and
  above). An argument outside the excerpt yields \<open>NotModelled\<close>, which no evaluation
  below reaches. Python salts the hash
  of a string per process, so \<open>hash_standin\<close> stands for one process's hash function.
\<close>

definition plain_char :: "char \<Rightarrow> bool" where
  "plain_char c \<longleftrightarrow>
     (32::nat) \<le> of_char c \<and> (of_char c :: nat) < 127 \<and> c \<noteq> CHR 0x22 \<and> c \<noteq> CHR 0x5C"

definition is_digit :: "char \<Rightarrow> bool" where
  "is_digit c \<longleftrightarrow> (48::nat) \<le> of_char c \<and> (of_char c :: nat) \<le> 57"

definition int_literal :: "string \<Rightarrow> int option" where
  "int_literal s =
     (let neg = (s \<noteq> [] \<and> hd s = CHR ''-'');
          ds = (if neg then tl s else s)
      in if ds \<noteq> [] \<and> list_all is_digit ds \<and> (length ds = 1 \<or> hd ds \<noteq> CHR ''0'')
            \<and> length ds \<le> 18
         then Some (if neg then - int (nat_of_digits ds) else int (nat_of_digits ds))
         else None)"

fun json_dumps_excerpt :: "pyval \<Rightarrow> py_error + string" where
  "json_dumps_excerpt PNone = Inr ''null''"
| "json_dumps_excerpt (PBool b) = Inr (if b then ''true'' else ''false'')"
| "json_dumps_excerpt (PInt i) =
     (if \<bar>i\<bar> < 10 ^ 18 then Inr (str_int i) else Inl NotModelled)"
| "json_dumps_excerpt (PStr s) =
     (if list_all plain_char s then Inr (CHR 0x22 # s @ [CHR 0x22]) else Inl NotModelled)"
| "json_dumps_excerpt (PObject cls attrs) = Inl TypeError"
| "json_dumps_excerpt v = Inl NotModelled"

text \<open>
  A text that is empty, or whose first character can start neither white space nor a JSON
  value, is refused by \<^verbatim>\<open>json.loads\<close> with \<^verbatim>\<open>JSONDecodeError\<close>.
\<close>

definition json_value_start :: "char \<Rightarrow> bool" where
  "json_value_start c \<longleftrightarrow>
     c \<in> set (CHR 0x09 # CHR 0x0A # CHR 0x0D # '' {[-0123456789tfnNI'' @ [CHR 0x22])"

definition json_loads_excerpt :: "string \<Rightarrow> py_error + pyval" where
  "json_loads_excerpt s =
     (if s = ''null'' then Inr PNone
      else if s = ''true'' then Inr (PBool True)
      else if s = ''false'' then Inr (PBool False)
      else if 2 \<le> length s \<and> hd s = CHR 0x22 \<and> last s = CHR 0x22
              \<and> list_all plain_char (butlast (tl s))
      then Inr (PStr (butlast (tl s)))
      else (case int_literal s of
              Some i \<Rightarrow> Inr (PInt i)
            | None \<Rightarrow>
                if s = [] \<or> \<not> json_value_start (hd s) then Inl JSONDecodeError
                else Inl NotModelled))"

definition pickle_loads_excerpt :: "string \<Rightarrow> py_error + pyval" where
  "pickle_loads_excerpt raw = (if raw = ''K*.'' then Inr (PInt 42) else Inl NotModelled)"

definition pickle_dumps_excerpt :: "pyval \<Rightarrow> py_error + string" where
  "pickle_dumps_excerpt v = Inl NotModelled"

definition utf8_decode_excerpt :: "string \<Rightarrow> py_error + string" where
  "utf8_decode_excerpt raw =
     (case dropWhile (\<lambda>c. (of_char c :: nat) < 128) raw of
        [] \<Rightarrow> Inr raw
      | c # rest \<Rightarrow>
          if (of_char c :: nat) < 194 \<or> (244::nat) < of_char c then Inl UnicodeDecodeError
          else Inl NotModelled)"

definition hash_standin :: "string \<Rightarrow> int" where
  "hash_standin s = foldl (\<lambda>a c. 31 * a + int (of_char c)) 7 s"

definition py_excerpt :: pylib where
  "py_excerpt =
     \<lparr>json_dumps = json_dumps_excerpt, json_loads = json_loads_excerpt,
      pickle_dumps = pickle_dumps_excerpt, pickle_loads = pickle_loads_excerpt,
      utf8_decode = utf8_decode_excerpt, py_hash = hash_standin\<rparr>"

section \<open>The orchestrator: \<^verbatim>\<open>ai_core/service_manager.py\<close>\<close>

text \<open>The dataclass \<^verbatim>\<open>AnalysisResult\<close>; Python does not check the field types.\<close>

record analysis_result =
  quality_score :: pyval
  issues :: pyval
  optimizations :: pyval
  patterns :: pyval
  execution_time :: pyval
  timestamp :: pyval

text \<open>\<^verbatim>\<open>result.__dict__\<close>\<close>

definition result_dict :: "analysis_result \<Rightarrow> pyval" where
  "result_dict r =
     PDict [(''quality_score'', quality_score r), (''issues'', issues r),
            (''optimizations'', optimizations r), (''patterns'', patterns r),
            (''execution_time'', execution_time r), (''timestamp'', timestamp r)]"

text \<open>\<^verbatim>\<open>AnalysisResult(**cached_result)\<close>: the mapping must give exactly the six fields.\<close>

definition AnalysisResult_kwargs :: "pyval \<Rightarrow> py_error + analysis_result" where
  "AnalysisResult_kwargs v =
     (case v of
        PDict d \<Rightarrow>
          if distinct (map fst d) \<and>
             set (map fst d) = {''quality_score'', ''issues'', ''optimizations'', ''patterns'',
                                ''execution_time'', ''timestamp''}
          then Inr \<lparr>quality_score = the (map_of d ''quality_score''),
                    issues = the (map_of d ''issues''),
                    optimizations = the (map_of d ''optimizations''),
                    patterns = the (map_of d ''patterns''),
                    execution_time = the (map_of d ''execution_time''),
                    timestamp = the (map_of d ''timestamp'')\<rparr>
          else Inl TypeError
      | _ \<Rightarrow> Inl TypeError)"

fun truthy :: "pyval \<Rightarrow> bool" where
  "truthy PNone = False"
| "truthy (PBool b) = b"
| "truthy (PInt i) = (i \<noteq> 0)"
| "truthy (PFloat x) = (x \<noteq> 0)"
| "truthy (PStr s) = (s \<noteq> [])"
| "truthy (PList xs) = (xs \<noteq> [])"
| "truthy (PDict d) = (d \<noteq> [])"
| "truthy (PObject cls attrs) = True"

text \<open>\<^verbatim>\<open>d[k]\<close> and \<^verbatim>\<open>d.get(k, default)\<close>\<close>

definition subscript :: "pyval \<Rightarrow> string \<Rightarrow> py_error + pyval" where
  "subscript v k =
     (case v of
        PDict d \<Rightarrow> (case map_of d k of Some x \<Rightarrow> Inr x | None \<Rightarrow> Inl KeyError)
      | _ \<Rightarrow> Inl TypeError)"

definition dict_get :: "pyval \<Rightarrow> string \<Rightarrow> pyval \<Rightarrow> py_error + pyval" where
  "dict_get v k dflt =
     (case v of
        PDict d \<Rightarrow> Inr (case map_of d k of Some x \<Rightarrow> x | None \<Rightarrow> dflt)
      | _ \<Rightarrow> Inl AttributeError)"

text \<open>
  \<^verbatim>\<open>await\<close> applied to a value that is not awaitable raises \<^verbatim>\<open>TypeError\<close>.
  \<^verbatim>\<open>CacheManager.get\<close> and \<^verbatim>\<open>CacheManager.set\<close> are plain methods (\<^verbatim>\<open>def\<close>, not
  \<^verbatim>\<open>async def\<close>): what they return is a plain value, and no value of \<open>pyval\<close> is awaitable.
\<close>

definition py_await :: "pyval \<Rightarrow> py_error + pyval" where
  "py_await v = Inl TypeError"

text \<open>
  The methods that the class \<^verbatim>\<open>TelemetryManager\<close> of \<^verbatim>\<open>monitoring/telemetry.py\<close> defines;
  calling any other name on it raises \<^verbatim>\<open>AttributeError\<close>.
\<close>

definition TelemetryManager_methods :: "string list" where
  "TelemetryManager_methods =
     [''record_request'', ''record_model_inference'', ''start_operation_tracking'',
      ''record_performance_metrics'']"

definition telemetry_call :: "string \<Rightarrow> py_error + unit" where
  "telemetry_call name =
     (if name \<in> set TelemetryManager_methods then Inr () else Inl AttributeError)"

text \<open>
  What a call of \<^verbatim>\<open>analyze_code\<close> meets outside the orchestrator: the library, the outcome
  of each of the three analysis tasks (the providers are black boxes), the order in which
  the tasks finish, and the clock readings.
\<close>

record env =
  lib :: pylib
  context_analysis :: "py_error + pyval"
  debug_analysis :: "py_error + pyval"
  optimization_analysis :: "py_error + pyval"
  finish_order :: "nat list"
  clock_lookup :: real
  clock_store :: real
  elapsed_seconds :: real
  utcnow_isoformat :: string

text \<open>
  \<^verbatim>\<open>asyncio.gather(*tasks)\<close>: the first task to fail, in the order of finishing, raises in
  the caller; if none fails the results come in the order of the tasks.
\<close>

fun first_failure :: "(py_error + 'a) list \<Rightarrow> nat list \<Rightarrow> py_error option" where
  "first_failure outs [] = None"
| "first_failure outs (i # order) =
     (if i < length outs
      then (case outs ! i of Inl e \<Rightarrow> Some e | Inr v \<Rightarrow> first_failure outs order)
      else first_failure outs order)"

definition gather :: "(py_error + 'a) list \<Rightarrow> nat list \<Rightarrow> py_error + 'a list" where
  "gather outs order =
     (case first_failure outs (order @ [0..<length outs]) of
        Some e \<Rightarrow> Inl e
      | None \<Rightarrow> Inr (List.map_filter (\<lambda>out. case out of Inr v \<Rightarrow> Some v | Inl e \<Rightarrow> None) outs))"

text \<open>\<^verbatim>\<open>cache_key = f"analysis:{hash(code)}"\<close>, for a request (code, context).\<close>

definition cache_key :: "pylib \<Rightarrow> string \<Rightarrow> (string \<times> pyval) list option \<Rightarrow> string" where
  "cache_key L code context = ''analysis:'' @ str_int (py_hash L code)"

text \<open>
  The cache check before the \<^verbatim>\<open>try\<close>: \<open>Inl\<close> is an exception leaving \<^verbatim>\<open>analyze_code\<close>,
  \<open>Inr (Some r)\<close> the early return of a cached result, \<open>Inr None\<close> falls through.
\<close>

definition check_cache ::
  "env \<Rightarrow> redis_server \<Rightarrow> string \<Rightarrow> (string \<times> pyval) list option \<Rightarrow> bool
     \<Rightarrow> py_error + analysis_result option" where
  "check_cache E server code context use_cache =
     (if use_cache
      then (case cache_get (lib E) server (clock_lookup E)
                   (cache_key (lib E) code context) PNone of
              Inl e \<Rightarrow> Inl e
            | Inr r \<Rightarrow>
                (case py_await r of
                   Inl e \<Rightarrow> Inl e
                 | Inr cached_result \<Rightarrow>
                     if truthy cached_result
                     then (case AnalysisResult_kwargs cached_result of
                             Inl e \<Rightarrow> Inl e
                           | Inr a \<Rightarrow> Inr (Some a))
                     else Inr None))
      else Inr None)"

text \<open>The body of the \<^verbatim>\<open>try\<close>, with the cache server it leaves behind.\<close>

definition try_body ::
  "env \<Rightarrow> redis_server \<Rightarrow> string \<Rightarrow> (string \<times> pyval) list option \<Rightarrow> bool
     \<Rightarrow> (py_error + analysis_result) \<times> redis_server" where
  "try_body E server code context use_cache =
     (case gather [context_analysis E, debug_analysis E, optimization_analysis E]
             (finish_order E) of
        Inl e \<Rightarrow> (Inl e, server)
      | Inr results \<Rightarrow>
          (case results of
             [context_result, debug_result, optimization_result] \<Rightarrow>
               (case subscript context_result ''code_quality_score'' of
                  Inl e \<Rightarrow> (Inl e, server)
                | Inr q \<Rightarrow>
                    (case dict_get context_result ''related_patterns'' (PList []) of
                       Inl e \<Rightarrow> (Inl e, server)
                     | Inr p \<Rightarrow>
                         (let result =
                                \<lparr>quality_score = q, issues = debug_result,
                                 optimizations = optimization_result, patterns = p,
                                 execution_time = PFloat (elapsed_seconds E),
                                 timestamp = PStr (utcnow_isoformat E)\<rparr>;
                              cached =
                                (if use_cache
                                 then (case cache_set CacheManager_init (lib E) server
                                              (clock_store E) (cache_key (lib E) code context)
                                              (result_dict result) (Some 3600) of
                                         (Inl e, server') \<Rightarrow> (Inl e, server')
                                       | (Inr u, server') \<Rightarrow>
                                           (case py_await PNone of
                                              Inl e \<Rightarrow> (Inl e, server')
                                            | Inr x \<Rightarrow> (Inr (), server')))
                                 else (Inr (), server))
                          in case cached of
                               (Inl e, server') \<Rightarrow> (Inl e, server')
                             | (Inr u, server') \<Rightarrow>
                                 (case telemetry_call ''record_analysis'' of
                                    Inl e \<Rightarrow> (Inl e, server')
                                  | Inr u' \<Rightarrow> (Inr result, server')))))
           | _ \<Rightarrow> (Inl ValueError, server)))"

text \<open>
  The handler \<^verbatim>\<open>except Exception as e\<close>: it logs, calls \<^verbatim>\<open>self.telemetry.record_error\<close>
  and then re-raises \<open>e\<close> with a bare \<^verbatim>\<open>raise\<close>. The result is the exception that leaves
  the handler.
\<close>

definition except_handler :: "py_error \<Rightarrow> py_error" where
  "except_handler e =
     (case telemetry_call ''record_error'' of
        Inl e' \<Rightarrow> e'
      | Inr u \<Rightarrow> e)"

text \<open>\<^verbatim>\<open>AIServiceManager.analyze_code(code, context, use_cache)\<close>\<close>

definition analyze_code ::
  "env \<Rightarrow> redis_server \<Rightarrow> string \<Rightarrow> (string \<times> pyval) list option \<Rightarrow> bool
     \<Rightarrow> (py_error + analysis_result) \<times> redis_server" where
  "analyze_code E server code context use_cache =
     (case check_cache E server code context use_cache of
        Inl e \<Rightarrow> (Inl e, server)
      | Inr (Some cached) \<Rightarrow> (Inr cached, server)
      | Inr None \<Rightarrow>
          (case try_body E server code context use_cache of
             (Inr result, server') \<Rightarrow> (Inr result, server')
           | (Inl e, server') \<Rightarrow> (Inl (except_handler e), server')))"

text \<open>An environment for evaluation: the three tasks succeed and finish in order.\<close>

definition sample_env :: env where
  "sample_env =
     \<lparr>lib = py_excerpt,
      context_analysis =
        Inr (PDict [(''code_quality_score'', PFloat (9 / 10)), (''related_patterns'', PList [])]),
      debug_analysis = Inr (PList []),
      optimization_analysis = Inr (PList []),
      finish_order = [0, 1, 2],
      clock_lookup = 0, clock_store = 1, elapsed_seconds = 1,
      utcnow_isoformat = ''2024-01-01T00:00:00''\<rparr>"

section \<open>Properties of the rate limiter\<close>

subsection \<open>Shape of one call\<close>

lemma tier_configs_dom:
  "t \<in> dom tier_configs \<longleftrightarrow> t = ''free'' \<or> t = ''pro'' \<or> t = ''enterprise''"
  by (auto simp: tier_configs_def tier_configs_items_def split: if_splits)

lemma known_bucket_key_inj:
  assumes "t \<in> dom tier_configs" "t' \<in> dom tier_configs"
      and "bucket_key (config_for rl t) k = bucket_key (config_for rl t') k'"
  shows "t = t' \<and> k = k'"
  using assms unfolding tier_configs_dom
  by (auto simp: config_for_def tier_configs_def tier_configs_items_def bucket_key_def)

lemma lua_script_cases:
  "lua_script store srv bkey now rate burst = (store, 0) \<or>
   (\<exists>x. 1 \<le> x \<and> x \<le> burst \<and>
      lua_script store srv bkey now rate burst =
        (store(bkey \<mapsto> (\<lparr>tokens = x - 1, last_update = now\<rparr>, srv + 60)), 1))"
proof -
  define x where "x = min burst
     ((case hgetall store srv bkey of Some b \<Rightarrow> tokens b | None \<Rightarrow> burst) +
      rate * (now - (case hgetall store srv bkey of Some b \<Rightarrow> last_update b | None \<Rightarrow> 0)) / 60)"
  have le: "x \<le> burst" by (simp add: x_def)
  show ?thesis
  proof (cases "1 \<le> x")
    case True
    then have "lua_script store srv bkey now rate burst =
        (store(bkey \<mapsto> (\<lparr>tokens = x - 1, last_update = now\<rparr>, srv + 60)), 1)"
      by (simp add: lua_script_def Let_def x_def)
    with True le show ?thesis by blast
  next
    case False
    then have "lua_script store srv bkey now rate burst = (store, 0)"
      by (simp add: lua_script_def Let_def x_def)
    then show ?thesis by blast
  qed
qed

lemma check_rate_limit_cases:
  "snd (check_rate_limit rl fault store srv now key tier) = store \<or>
   (\<exists>x. 1 \<le> x \<and> x \<le> real_of_int (burst_size (config_for rl tier)) \<and>
      snd (check_rate_limit rl fault store srv now key tier) =
        store(bucket_key (config_for rl tier) key \<mapsto>
               (\<lparr>tokens = x - 1, last_update = now\<rparr>, srv + 60)))"
proof (cases fault)
  case (Some e)
  then show ?thesis by (simp add: check_rate_limit_def redis_eval_def)
next
  case None
  let ?c = "config_for rl tier"
  from lua_script_cases [of store srv "bucket_key ?c key" now
      "real_of_int (requests_per_minute ?c)" "real_of_int (burst_size ?c)"]
  show ?thesis
    using None by (auto simp: check_rate_limit_def redis_eval_def Let_def)
qed

lemma check_frame:
  "k' \<noteq> bucket_key (config_for rl tier) key \<Longrightarrow>
     snd (check_rate_limit rl fault store srv now key tier) k' = store k'"
  using check_rate_limit_cases [of rl fault store srv now key tier] by auto

lemma run_frame:
  "\<forall>c \<in> set cs. bucket_key (config_for rl (c_tier c)) (c_key c) \<noteq> k' \<Longrightarrow>
     run_calls rl cs store k' = store k'"
  by (induction cs arbitrary: store) (auto simp: check_frame)

lemma check_local:
  assumes "store1 (bucket_key (config_for rl tier) key) =
           store2 (bucket_key (config_for rl tier) key)"
  shows "fst (check_rate_limit rl fault store1 srv now key tier) =
           fst (check_rate_limit rl fault store2 srv now key tier) \<and>
         snd (check_rate_limit rl fault store1 srv now key tier)
             (bucket_key (config_for rl tier) key) =
           snd (check_rate_limit rl fault store2 srv now key tier)
             (bucket_key (config_for rl tier) key)"
  using assms
  by (cases fault)
     (auto simp: check_rate_limit_def redis_eval_def lua_script_def hgetall_def Let_def)

subsection \<open>The token invariant\<close>

lemma tokens_ok_step:
  assumes "tokens_ok rl store" "tier \<in> dom tier_configs"
  shows "tokens_ok rl (snd (check_rate_limit rl fault store srv now key tier))"
proof -
  from check_rate_limit_cases [of rl fault store srv now key tier]
  show ?thesis
  proof
    assume "snd (check_rate_limit rl fault store srv now key tier) = store"
    with assms show ?thesis by simp
  next
    assume "\<exists>x. 1 \<le> x \<and> x \<le> real_of_int (burst_size (config_for rl tier)) \<and>
      snd (check_rate_limit rl fault store srv now key tier) =
        store(bucket_key (config_for rl tier) key \<mapsto>
               (\<lparr>tokens = x - 1, last_update = now\<rparr>, srv + 60))"
    then obtain x where x: "1 \<le> x" "x \<le> real_of_int (burst_size (config_for rl tier))"
      and eq: "snd (check_rate_limit rl fault store srv now key tier) =
        store(bucket_key (config_for rl tier) key \<mapsto>
               (\<lparr>tokens = x - 1, last_update = now\<rparr>, srv + 60))"
      by blast
    show ?thesis
      unfolding tokens_ok_def eq
    proof (intro allI impI)
      fix t k b d
      assume t: "t \<in> dom tier_configs"
        and st: "(store(bucket_key (config_for rl tier) key \<mapsto>
               (\<lparr>tokens = x - 1, last_update = now\<rparr>, srv + 60)))
               (bucket_key (config_for rl t) k) = Some (b, d)"
      show "0 \<le> tokens b \<and> tokens b \<le> real_of_int (burst_size (config_for rl t)) - 1"
      proof (cases "bucket_key (config_for rl t) k = bucket_key (config_for rl tier) key")
        case True
        with known_bucket_key_inj [OF t assms(2)] have "t = tier" by blast
        moreover from True st have "b = \<lparr>tokens = x - 1, last_update = now\<rparr>" by simp
        ultimately show ?thesis using x by simp
      next
        case False
        with st have "store (bucket_key (config_for rl t) k) = Some (b, d)" by simp
        with assms(1) t show ?thesis unfolding tokens_ok_def by blast
      qed
    qed
  qed
qed

lemma tokens_ok_run:
  "tokens_ok rl store \<Longrightarrow> \<forall>c \<in> set cs. c_tier c \<in> dom tier_configs \<Longrightarrow>
     tokens_ok rl (run_calls rl cs store)"
  by (induction cs arbitrary: store) (auto intro: tokens_ok_step)

text \<open>
  C3. Starting from an empty store, after any sequence of calls for the configured tiers
  (whatever the clocks read, and whether or not the store fails in between), every bucket
  record in the store holds a token count between 0 and the burst size of its tier.
\<close>

theorem stored_tokens_within_burst:
  assumes "\<forall>c \<in> set cs. c_tier c \<in> dom tier_configs"
      and "t \<in> dom tier_configs"
      and "run_calls rl cs Map.empty (bucket_key (config_for rl t) k) = Some (b, deadline)"
  shows "0 \<le> tokens b \<and> tokens b \<le> real_of_int (burst_size (config_for rl t))"
proof -
  have "tokens_ok rl Map.empty" by (simp add: tokens_ok_def)
  from tokens_ok_run [OF this assms(1)] assms(2,3)
  have "0 \<le> tokens b \<and> tokens b \<le> real_of_int (burst_size (config_for rl t)) - 1"
    unfolding tokens_ok_def by blast
  then show ?thesis by simp
qed

theorem stored_tokens_within_burst_witness:
  "run_calls (RateLimiter_init None)
      [\<lparr>c_fault = None, c_srv = 1000, c_now = 1000, c_key = ''c1'', c_tier = ''free''\<rparr>]
      Map.empty (bucket_key (config_for (RateLimiter_init None) ''free'') ''c1'')
     = Some (\<lparr>tokens = 9, last_update = 1000\<rparr>, 1060) \<and>
   0 \<le> tokens \<lparr>tokens = 9, last_update = 1000\<rparr> \<and>
   tokens \<lparr>tokens = 9, last_update = 1000\<rparr>
     \<le> real_of_int (burst_size (config_for (RateLimiter_init None) ''free''))"
proof -
  let ?cs = "[\<lparr>c_fault = None, c_srv = 1000, c_now = 1000, c_key = ''c1'', c_tier = ''free''\<rparr>]"
  have h1: "\<forall>c \<in> set ?cs. c_tier c \<in> dom tier_configs"
    by (simp add: tier_configs_dom)
  have h2: "''free'' \<in> dom tier_configs"
    by (simp add: tier_configs_dom)
  have h3: "run_calls (RateLimiter_init None) ?cs Map.empty
      (bucket_key (config_for (RateLimiter_init None) ''free'') ''c1'')
     = Some (\<lparr>tokens = 9, last_update = 1000\<rparr>, 1060)"
    by (simp add: check_rate_limit_def redis_eval_def lua_script_def hgetall_def Let_def
        config_for_def tier_configs_def tier_configs_items_def bucket_key_def)
  from stored_tokens_within_burst [OF h1 h2 h3] h3 show ?thesis by blast
qed

subsection \<open>The algorithm of one call\<close>

lemma lua_script_exact_instance:
  "lua_script_on exact_arith (as_nstore store) srv bkey now rate burst =
     (as_nstore (fst (lua_script store srv bkey now rate burst)),
      snd (lua_script store srv bkey now rate burst))"
proof -
  have h: "hgetall_n (as_nstore store) srv bkey = map_option as_nbucket (hgetall store srv bkey)"
    by (simp add: hgetall_n_def hgetall_def as_nstore_def split: option.splits)
  have u: "(as_nstore store)(bkey \<mapsto> (as_nbucket b, d)) = as_nstore (store(bkey \<mapsto> (b, d)))"
    for b d
    by (rule ext) (simp add: as_nstore_def)
  show ?thesis
  proof (cases "hgetall store srv bkey")
    case None
    then show ?thesis
      using u [of "\<lparr>tokens = min burst (burst + rate * now / 60) - 1, last_update = now\<rparr>"
          "srv + 60"]
      by (simp add: lua_script_on_def lua_script_def h exact_arith_def Let_def as_nbucket_def)
  next
    case (Some b)
    then show ?thesis
      using u [of "\<lparr>tokens = min burst (tokens b + rate * (now - last_update b) / 60) - 1,
                   last_update = now\<rparr>" "srv + 60"]
      by (simp add: lua_script_on_def lua_script_def h exact_arith_def Let_def as_nbucket_def)
  qed
qed

lemma check_rate_limit_exact_instance:
  "check_rate_limit_on exact_arith rl fault (as_nstore store) srv now key tier =
     (fst (check_rate_limit rl fault store srv now key tier),
      as_nstore (snd (check_rate_limit rl fault store srv now key tier)))"
proof (cases fault)
  case (Some e)
  then show ?thesis
    by (simp add: check_rate_limit_on_def check_rate_limit_def redis_eval_def)
next
  case None
  have n: "n_of_int exact_arith i = real_of_int i" for i
    by (simp add: exact_arith_def)
  from None show ?thesis
    by (simp add: check_rate_limit_on_def check_rate_limit_def redis_eval_def Let_def n
        lua_script_exact_instance split: prod.splits)
qed

text \<open>
  C2, as the code has it, in whatever arithmetic the script runs (each operation is the
  number system's, applied in the order of the script). A call that reaches the store
  reads the bucket record, an absent or expired record counting as (burst, 0); it
  computes elapsed = now - last_update with no clamp at 0 and
  refilled = min(burst, tokens + rate * elapsed / 60), the window being the constant 60.
  If refilled >= 1 it stores (refilled - 1, now), sets the record to expire 60 seconds
  later and allows the request; otherwise it refuses the request and leaves the store as
  it was.
\<close>

theorem check_rate_limit_algorithm:
  "check_rate_limit_on A rl None store srv now key tier =
     (let config = config_for rl tier;
          bkey = bucket_key config key;
          burst = n_of_int A (burst_size config);
          rate = n_of_int A (requests_per_minute config);
          st = (case hgetall_n store srv bkey of
                  Some b \<Rightarrow> b
                | None \<Rightarrow> \<lparr>n_tokens = burst, n_last_update = n_of_int A 0\<rparr>);
          elapsed = n_sub A now (n_last_update st);
          refilled =
            n_min A burst
              (n_add A (n_tokens st) (n_div A (n_mul A rate elapsed) (n_of_int A 60)))
      in if n_ge A refilled (n_of_int A 1)
         then (True, store(bkey \<mapsto>
                 (\<lparr>n_tokens = n_sub A refilled (n_of_int A 1), n_last_update = now\<rparr>,
                  srv + 60)))
         else (False, store))"
  by (simp add: check_rate_limit_on_def redis_eval_def lua_script_on_def Let_def
      split: option.splits)

text \<open>
  Two calls where the script and the wording with a clamp and a write on refusal part.
  All numbers involved are integers or halves, on which double arithmetic is exact.
  First, the client clock reads 98 while the record was updated at 100: the script
  subtracts the two tokens of the negative elapsed time and stores 2, where the clamp
  would give 4. Second, half a token has refilled: the script refuses and stores nothing,
  where the wording stores (1/2, now).
\<close>

theorem check_rate_limit_vs_consume_spec:
  "fst (lua_script
          (Map.empty(''rate_limit:free:c1'' \<mapsto> (\<lparr>tokens = 5, last_update = 100\<rparr>, 160)))
          101 ''rate_limit:free:c1'' 98 60 10) ''rate_limit:free:c1''
     = Some (\<lparr>tokens = 2, last_update = 98\<rparr>, 161) \<and>
   consume_spec (Some \<lparr>tokens = 5, last_update = 100\<rparr>) 98 60 10 60
     = (True, \<lparr>tokens = 4, last_update = 98\<rparr>) \<and>
   lua_script
      (Map.empty(''rate_limit:free:c1'' \<mapsto> (\<lparr>tokens = 0, last_update = 100\<rparr>, 160)))
      101 ''rate_limit:free:c1'' (201 / 2) 60 10
     = (Map.empty(''rate_limit:free:c1'' \<mapsto> (\<lparr>tokens = 0, last_update = 100\<rparr>, 160)), 0) \<and>
   consume_spec (Some \<lparr>tokens = 0, last_update = 100\<rparr>) (201 / 2) 60 10 60
     = (False, \<lparr>tokens = 1 / 2, last_update = 201 / 2\<rparr>)"
  by (simp add: lua_script_def hgetall_def consume_spec_def Let_def)

subsection \<open>Store failures\<close>

text \<open>
  C9. Whatever exception the evaluation of the script raises (store unreachable, timeout,
  script error), \<^verbatim>\<open>check_rate_limit\<close> returns \<^verbatim>\<open>True\<close> and does not raise.
\<close>

theorem check_rate_limit_fails_open:
  "check_rate_limit rl (Some e) store srv now key tier = (True, store)"
  by (simp add: check_rate_limit_def redis_eval_def)

subsection \<open>Tier isolation\<close>

text \<open>
  C7. For two distinct configured tiers and one client key, the bucket keys differ; calls
  under the first tier, for this or any other client, leave the second tier's record for
  the client untouched, and a call under the second tier answers and writes the same
  whether or not the first tier's calls came before it.
\<close>

theorem tier_isolation:
  assumes "tA \<in> dom tier_configs" "tB \<in> dom tier_configs" "tA \<noteq> tB"
      and "\<forall>c \<in> set csA. c_tier c = tA"
  shows "bucket_key (config_for rl tA) k \<noteq> bucket_key (config_for rl tB) k \<and>
         run_calls rl csA store (bucket_key (config_for rl tB) k)
           = store (bucket_key (config_for rl tB) k) \<and>
         fst (check_rate_limit rl f (run_calls rl csA store) srv now k tB)
           = fst (check_rate_limit rl f store srv now k tB) \<and>
         snd (check_rate_limit rl f (run_calls rl csA store) srv now k tB)
             (bucket_key (config_for rl tB) k)
           = snd (check_rate_limit rl f store srv now k tB) (bucket_key (config_for rl tB) k)"
proof -
  have ne: "bucket_key (config_for rl tA) k' \<noteq> bucket_key (config_for rl tB) k" for k'
    using known_bucket_key_inj [OF assms(1,2)] assms(3) by blast
  then have "\<forall>c \<in> set csA.
      bucket_key (config_for rl (c_tier c)) (c_key c) \<noteq> bucket_key (config_for rl tB) k"
    using assms(4) by simp
  then have same: "run_calls rl csA store (bucket_key (config_for rl tB) k)
      = store (bucket_key (config_for rl tB) k)"
    by (rule run_frame)
  have "fst (check_rate_limit rl f (run_calls rl csA store) srv now k tB)
           = fst (check_rate_limit rl f store srv now k tB) \<and>
         snd (check_rate_limit rl f (run_calls rl csA store) srv now k tB)
             (bucket_key (config_for rl tB) k)
           = snd (check_rate_limit rl f store srv now k tB) (bucket_key (config_for rl tB) k)"
    using same by (rule check_local)
  with same ne show ?thesis by blast
qed

theorem tier_isolation_witness:
  "bucket_key (config_for (RateLimiter_init None) ''free'') ''c1''
     \<noteq> bucket_key (config_for (RateLimiter_init None) ''pro'') ''c1'' \<and>
   run_calls (RateLimiter_init None)
      [\<lparr>c_fault = None, c_srv = 1000, c_now = 1000, c_key = ''c1'', c_tier = ''free''\<rparr>]
      Map.empty (bucket_key (config_for (RateLimiter_init None) ''pro'') ''c1'') = None \<and>
   fst (check_rate_limit (RateLimiter_init None) None
          (run_calls (RateLimiter_init None)
             [\<lparr>c_fault = None, c_srv = 1000, c_now = 1000, c_key = ''c1'', c_tier = ''free''\<rparr>]
             Map.empty)
          1001 1001 ''c1'' ''pro'')
     = fst (check_rate_limit (RateLimiter_init None) None Map.empty 1001 1001 ''c1'' ''pro'')"
proof -
  let ?cs = "[\<lparr>c_fault = None, c_srv = 1000, c_now = 1000, c_key = ''c1'', c_tier = ''free''\<rparr>]"
  have h1: "''free'' \<in> dom tier_configs" and h2: "''pro'' \<in> dom tier_configs"
    by (simp_all add: tier_configs_dom)
  have h3: "''free'' \<noteq> ''pro''" by simp
  have h4: "\<forall>c \<in> set ?cs. c_tier c = ''free''" by simp
  from tier_isolation [OF h1 h2 h3 h4, of "RateLimiter_init None" "''c1''" Map.empty None 1001 1001]
  show ?thesis by simp
qed

section \<open>Properties of the result cache\<close>

text \<open>
  C10. On a reachable server \<^verbatim>\<open>delete(key)\<close> succeeds, and a \<^verbatim>\<open>get(key, default)\<close> after it
  returns the default, whatever the server held under the key before (so whichever
  encoding and whichever client wrote it) and whatever the library functions do.
\<close>

theorem cache_get_after_delete:
  "fst (cache_delete (Up store) key) = Inr () \<and>
   cache_get L (snd (cache_delete (Up store) key)) now key dflt = Inr dflt"
  by (simp add: cache_delete_def redis_delete_def cache_get_def redis_get_def)

text \<open>
  A failing \<^verbatim>\<open>set\<close> always fails with \<^verbatim>\<open>AttributeError\<close> and stores nothing: whatever the
  body of the \<^verbatim>\<open>try\<close> raises, the handler's own expression raises first. The pickling
  branch is never taken.
\<close>

lemma cache_set_raises_only_AttributeError:
  "cache_set cm L server now key v ttl = (Inl e, server') \<Longrightarrow>
     e = AttributeError \<and> server' = server"
  by (auto simp: cache_set_def json_exception_class_def Let_def redis_set_def
      split: sum.splits redis_server.splits if_splits prod.splits)

text \<open>
  The round trip through JSON: if \<^verbatim>\<open>json.dumps\<close> accepts the value and \<^verbatim>\<open>json.loads\<close>
  gives it back from the text, a \<^verbatim>\<open>get\<close> before the expiry returns the value.
\<close>

lemma cache_round_trip_json:
  assumes "json_dumps L v = Inr s" "utf8_decode L s = Inr s" "json_loads L s = Inr v"
      and "0 < ttl" "now' < now + real_of_int ttl"
  shows "cache_get L (snd (cache_set cm L (Up store) now key v (Some ttl))) now' key dflt = Inr v"
  using assms
  by (simp add: cache_set_def cache_get_def redis_set_def redis_get_def Let_def)

text \<open>
  C6, where the code departs from it. A value that \<^verbatim>\<open>json.dumps\<close> refuses, such as the
  instance of a user class that \<^verbatim>\<open>tests/test_cache.py::test_binary_data\<close> stores, is meant
  to be pickled. The handler \<^verbatim>\<open>except (TypeError, json.JSONEncodeError)\<close> names an attribute
  the \<^verbatim>\<open>json\<close> module does not have: \<^verbatim>\<open>set\<close> raises \<^verbatim>\<open>AttributeError\<close> and the store is left
  as it was, so the value cannot be read back.
\<close>

theorem cache_set_json_failure:
  "json_dumps L v = Inl e \<Longrightarrow>
     cache_set cm L server now key v ttl = (Inl AttributeError, server)"
  by (simp add: cache_set_def json_exception_class_def Let_def)

theorem cache_set_json_failure_witness:
  "json_dumps py_excerpt (PObject ''CustomObject'' [(''value'', PInt 42)]) = Inl TypeError \<and>
   cache_set CacheManager_init py_excerpt (Up Map.empty) 0 ''binary_key''
      (PObject ''CustomObject'' [(''value'', PInt 42)]) None
     = (Inl AttributeError, Up Map.empty) \<and>
   cache_get py_excerpt (Up Map.empty) 1 ''binary_key'' PNone = Inr PNone"
proof -
  have h: "json_dumps py_excerpt (PObject ''CustomObject'' [(''value'', PInt 42)]) = Inl TypeError"
    by (simp add: py_excerpt_def)
  have g: "cache_get py_excerpt (Up Map.empty) 1 ''binary_key'' PNone = Inr PNone"
    by (simp add: cache_get_def redis_get_def)
  from cache_set_json_failure [OF h] h g show ?thesis by simp
qed

text \<open>
  C5, as the code has it. \<^verbatim>\<open>set\<close> records no discriminant: for a value that \<^verbatim>\<open>json.dumps\<close>
  accepts, the record written under the key is the JSON text and the expiry, nothing
  else. \<^verbatim>\<open>get\<close> chooses the decoder by trial. An absent or expired key gives the default.
  Otherwise the text client decodes the stored bytes as UTF-8, and bytes it cannot decode
  raise there, before any decoder; the text is decoded as JSON, and only when that raises
  \<^verbatim>\<open>JSONDecodeError\<close> are the same bytes unpickled.
\<close>

theorem cache_encoding_by_trial:
  "(json_dumps L v = Inr s \<longrightarrow> 0 < ttl \<longrightarrow>
      cache_set cm L (Up store) now key v (Some ttl)
        = (Inr (), Up (store(key \<mapsto> (s, now + real_of_int ttl))))) \<and>
   cache_get L (Up store) now' key dflt
     = (case store key of
          None \<Rightarrow> Inr dflt
        | Some (raw, deadline) \<Rightarrow>
            if now' < deadline
            then (case utf8_decode L raw of
                    Inl e \<Rightarrow> Inl e
                  | Inr t \<Rightarrow>
                      (case json_loads L t of
                         Inr x \<Rightarrow> Inr x
                       | Inl e \<Rightarrow> if e = JSONDecodeError then pickle_loads L raw else Inl e))
            else Inr dflt)"
  by (auto simp: cache_set_def cache_get_def redis_set_def redis_get_def
      json_exception_class_def Let_def split: sum.splits option.splits)

theorem cache_encoding_by_trial_witness:
  "cache_set CacheManager_init py_excerpt (Up (Map.empty(''k'' \<mapsto> (''K*.'', 100)))) 0 ''k''
      (PBool True) (Some 60)
     = (Inr (), Up (Map.empty(''k'' \<mapsto> (''true'', 60)))) \<and>
   cache_get py_excerpt (Up (Map.empty(''k'' \<mapsto> (''K*.'', 100)))) 0 ''k'' PNone
     = Inr (PInt 42)"
proof -
  have h1: "json_dumps py_excerpt (PBool True) = Inr ''true''"
    by (simp add: py_excerpt_def)
  have h2: "(0::int) < 60" by simp
  have u: "utf8_decode py_excerpt ''K*.'' = Inr ''K*.''"
    by (simp add: py_excerpt_def utf8_decode_excerpt_def)
  have j: "json_loads py_excerpt ''K*.'' = Inl JSONDecodeError"
    by (simp add: py_excerpt_def json_loads_excerpt_def int_literal_def is_digit_def
        json_value_start_def Let_def)
  have p: "pickle_loads py_excerpt ''K*.'' = Inr (PInt 42)"
    by (simp add: py_excerpt_def pickle_loads_excerpt_def)
  from cache_encoding_by_trial [of py_excerpt "PBool True" "''true''" 60 CacheManager_init
      "Map.empty(''k'' \<mapsto> (''K*.'', 100))" 0 "''k''" 0 PNone]
    h1 h2 u j p
  show ?thesis by simp
qed

text \<open>
  The bytes \<^verbatim>\<open>b'\x80\x04K*.'\<close> are what \<^verbatim>\<open>pickle.dumps(42)\<close> gives under the default
  protocol. A key that holds them cannot be read: the text client refuses the first byte,
  and neither decoder is tried.
\<close>

lemma cache_get_default_protocol_pickle:
  "cache_get py_excerpt (Up (Map.empty(''k'' \<mapsto> (CHR 0x80 # CHR 0x04 # ''K*.'', 100)))) 0 ''k''
      PNone
     = Inl UnicodeDecodeError"
  by (simp add: cache_get_def redis_get_def py_excerpt_def utf8_decode_excerpt_def)

text \<open>
  The record that \<^verbatim>\<open>set("test_key", "test_value")\<close> writes into an empty store is the bare
  JSON text with its expiry, and a key that holds the three bytes \<^verbatim>\<open>K*.\<close>, with no tag
  beside them, reads as the integer 42: \<^verbatim>\<open>get\<close> finds the decoder by failing with the
  first one.
\<close>

theorem cache_stores_no_discriminant:
  "cache_set CacheManager_init py_excerpt (Up Map.empty) 0 ''test_key''
      (PStr ''test_value'') None
     = (Inr (), Up (Map.empty(''test_key'' \<mapsto> (CHR 0x22 # ''test_value'' @ [CHR 0x22], 3600)))) \<and>
   cache_get py_excerpt (Up (Map.empty(''legacy'' \<mapsto> (''K*.'', 100)))) 0 ''legacy'' PNone
     = Inr (PInt 42)"
  by (simp add: cache_set_def cache_get_def CacheManager_init_def py_excerpt_def
      plain_char_def redis_set_def redis_get_def utf8_decode_excerpt_def
      json_loads_excerpt_def int_literal_def is_digit_def json_value_start_def
      pickle_loads_excerpt_def json_exception_class_def Let_def)

section \<open>Properties of the orchestrator\<close>

subsection \<open>The cache key\<close>

lemma digit_val_digit: "n < 10 \<Longrightarrow> digit_val (digit n) = n"
proof -
  assume "n < 10"
  then have "n \<in> {0, 1, 2, 3, 4, 5, 6, 7, 8, 9}" by auto
  then show ?thesis by (auto simp: digit_val_def digit_def)
qed

lemma digit_not_minus: "n < 10 \<Longrightarrow> digit n \<noteq> CHR ''-''"
proof -
  assume "n < 10"
  then have "n \<in> {0, 1, 2, 3, 4, 5, 6, 7, 8, 9}" by auto
  then show ?thesis by (auto simp: digit_def)
qed

lemma nat_of_digits_snoc: "nat_of_digits (ds @ [c]) = 10 * nat_of_digits ds + digit_val c"
  by (simp add: nat_of_digits_def)

lemma nat_of_digits_str_nat: "nat_of_digits (str_nat n) = n"
proof (induction n rule: str_nat.induct)
  case (1 n)
  show ?case
  proof (cases "n < 10")
    case True
    then show ?thesis
      by (subst str_nat.simps) (simp add: nat_of_digits_def digit_val_digit)
  next
    case False
    with 1 have "nat_of_digits (str_nat (n div 10)) = n div 10" by simp
    with False show ?thesis
      by (subst str_nat.simps) (simp add: nat_of_digits_snoc digit_val_digit)
  qed
qed

lemma str_nat_hd: "str_nat n \<noteq> [] \<and> hd (str_nat n) \<noteq> CHR ''-''"
proof (induction n rule: str_nat.induct)
  case (1 n)
  show ?case
  proof (cases "n < 10")
    case True
    then show ?thesis
      by (subst (1 2) str_nat.simps) (simp add: digit_not_minus)
  next
    case False
    with 1 have "str_nat (n div 10) \<noteq> [] \<and> hd (str_nat (n div 10)) \<noteq> CHR ''-''" by simp
    with False show ?thesis
      by (subst (1 2) str_nat.simps) simp
  qed
qed

lemma str_nat_inj: "str_nat m = str_nat n \<Longrightarrow> m = n"
  by (metis nat_of_digits_str_nat)

lemma str_int_inj: "str_int i = str_int j \<Longrightarrow> i = j"
proof -
  assume eq: "str_int i = str_int j"
  have nm: "str_nat n \<noteq> CHR ''-'' # ds" for n ds
    using str_nat_hd [of n] by (cases "str_nat n") auto
  show ?thesis
  proof (cases "i < 0")
    case True
    show ?thesis
    proof (cases "j < 0")
      case T2: True
      with True eq have "str_nat (nat (- i)) = str_nat (nat (- j))" by (simp add: str_int_def)
      then have "nat (- i) = nat (- j)" by (rule str_nat_inj)
      with True T2 show ?thesis by simp
    next
      case False
      with True eq nm show ?thesis by (simp add: str_int_def) metis
    qed
  next
    case False
    show ?thesis
    proof (cases "j < 0")
      case True
      with False eq nm show ?thesis by (simp add: str_int_def)
    next
      case F2: False
      with False eq have "str_nat (nat i) = str_nat (nat j)" by (simp add: str_int_def)
      then have "nat i = nat j" by (rule str_nat_inj)
      with False F2 show ?thesis by simp
    qed
  qed
qed

text \<open>
  C1, as the code has it. The cache key is computed from the code alone, through the
  process's \<^verbatim>\<open>hash\<close>: two requests get the same key exactly when their codes have the
  same hash, whatever their contexts. So equal requests get equal keys, and requests
  with equal code and different contexts get equal keys too.
\<close>

theorem cache_key_by_code_hash:
  "cache_key L code context = cache_key L code' context' \<longleftrightarrow>
     py_hash L code = py_hash L code'"
  by (auto simp: cache_key_def dest: str_int_inj)

text \<open>Two requests that differ in their contexts and share the cache key.\<close>

theorem cache_key_ignores_context:
  "(''def f(): pass'', None) \<noteq> (''def f(): pass'', Some [(''language'', PStr ''python'')]) \<and>
   cache_key py_excerpt ''def f(): pass'' None
     = cache_key py_excerpt ''def f(): pass'' (Some [(''language'', PStr ''python'')])"
  by (simp add: cache_key_def)

subsection \<open>Failures\<close>

lemma check_cache_True:
  "check_cache E server code context True =
     (case cache_get (lib E) server (clock_lookup E) (cache_key (lib E) code context) PNone of
        Inl e \<Rightarrow> Inl e
      | Inr r \<Rightarrow> Inl TypeError)"
  by (simp add: check_cache_def py_await_def split: sum.splits)

lemma check_cache_False: "check_cache E server code context False = Inr None"
  by (simp add: check_cache_def)

lemma try_body_uncached:
  "try_body E server code context False = (r, server') \<Longrightarrow>
     server' = server \<and> (\<exists>e. r = Inl e)"
  by (auto simp: try_body_def telemetry_call_def TelemetryManager_methods_def Let_def
      split: sum.splits list.splits)

text \<open>A failing analysis task ends the body of the \<^verbatim>\<open>try\<close> before the cache is written.\<close>

lemma try_body_failure_leaves_cache:
  "gather [context_analysis E, debug_analysis E, optimization_analysis E] (finish_order E)
     = Inl e \<Longrightarrow>
   try_body E server code context use_cache = (Inl e, server)"
  by (simp add: try_body_def)

text \<open>
  As the code stands no call of \<^verbatim>\<open>analyze_code\<close> returns a result or changes the cache.
  With \<^verbatim>\<open>use_cache=True\<close> the lookup raises, or the \<^verbatim>\<open>await\<close> of its plain return value
  does; with \<^verbatim>\<open>use_cache=False\<close> the body of the \<^verbatim>\<open>try\<close> ends at the latest in the call of
  \<^verbatim>\<open>self.telemetry.record_analysis\<close>, a method that \<^verbatim>\<open>TelemetryManager\<close> does not define.
\<close>

lemma analyze_code_never_returns:
  "\<exists>e. fst (analyze_code E server code context use_cache) = Inl e"
proof (cases use_cache)
  case True
  then show ?thesis
    by (simp add: analyze_code_def check_cache_True split: sum.splits)
next
  case False
  obtain r s where rs: "try_body E server code context False = (r, s)" by force
  from try_body_uncached [OF rs] rs False show ?thesis
    by (auto simp: analyze_code_def check_cache_False)
qed

lemma analyze_code_store_unchanged:
  "snd (analyze_code E server code context use_cache) = server"
proof (cases use_cache)
  case True
  then show ?thesis
    by (simp add: analyze_code_def check_cache_True split: sum.splits)
next
  case False
  obtain r s where rs: "try_body E server code context False = (r, s)" by force
  from try_body_uncached [OF rs] rs False show ?thesis
    by (auto simp: analyze_code_def check_cache_False)
qed

text \<open>
  C4, as the code has it. The cache lookup stands before the \<^verbatim>\<open>try\<close> and
  \<^verbatim>\<open>CacheManager.get\<close> catches \<^verbatim>\<open>JSONDecodeError\<close> only: with the cache server unreachable
  and \<^verbatim>\<open>use_cache=True\<close>, the connection error of the lookup leaves \<^verbatim>\<open>analyze_code\<close>,
  whatever the analysis tasks would have produced.
\<close>

theorem analyze_code_cache_down:
  "analyze_code E Down code context True = (Inl ConnectionError, Down)"
  by (simp add: analyze_code_def check_cache_True cache_get_def redis_get_def)

text \<open>A request whose three tasks would succeed fails on the unreachable cache.\<close>

theorem analyze_code_cache_down_example:
  "context_analysis sample_env
     = Inr (PDict [(''code_quality_score'', PFloat (9 / 10)), (''related_patterns'', PList [])]) \<and>
   debug_analysis sample_env = Inr (PList []) \<and>
   optimization_analysis sample_env = Inr (PList []) \<and>
   fst (analyze_code sample_env Down ''def f(): pass'' None True) = Inl ConnectionError"
  by (simp add: analyze_code_def check_cache_True cache_get_def redis_get_def sample_env_def)

text \<open>
  C8, where the code departs from it. When an analysis task fails, the handler calls
  \<^verbatim>\<open>self.telemetry.record_error\<close> before its \<^verbatim>\<open>raise\<close>; the class \<^verbatim>\<open>TelemetryManager\<close> has no
  such method, so the \<^verbatim>\<open>AttributeError\<close> of that call leaves \<^verbatim>\<open>analyze_code\<close> in place of
  the task's failure. The cache is left as it was.
\<close>

theorem analyze_code_provider_failure:
  assumes "gather [context_analysis E, debug_analysis E, optimization_analysis E]
             (finish_order E) = Inl e"
  shows "analyze_code E server code context False = (Inl AttributeError, server)"
  using assms
  by (simp add: analyze_code_def check_cache_False try_body_def except_handler_def
      telemetry_call_def TelemetryManager_methods_def)

theorem analyze_code_provider_failure_witness:
  "gather [context_analysis (sample_env\<lparr>context_analysis := Inl (ProviderFailure ''boom'')\<rparr>),
           debug_analysis (sample_env\<lparr>context_analysis := Inl (ProviderFailure ''boom'')\<rparr>),
           optimization_analysis (sample_env\<lparr>context_analysis := Inl (ProviderFailure ''boom'')\<rparr>)]
      (finish_order (sample_env\<lparr>context_analysis := Inl (ProviderFailure ''boom'')\<rparr>))
     = Inl (ProviderFailure ''boom'') \<and>
   analyze_code (sample_env\<lparr>context_analysis := Inl (ProviderFailure ''boom'')\<rparr>)
      (Up Map.empty) ''def f(): pass'' None False
     = (Inl AttributeError, Up Map.empty)"
proof -
  let ?E = "sample_env\<lparr>context_analysis := Inl (ProviderFailure ''boom'')\<rparr>"
  have g: "gather [context_analysis ?E, debug_analysis ?E, optimization_analysis ?E]
      (finish_order ?E) = Inl (ProviderFailure ''boom'')"
    by (simp add: gather_def sample_env_def)
  from analyze_code_provider_failure [OF g] g show ?thesis by simp
qed

end
